theory Spec2Isabelle
  imports Complex_Main "HOL-Library.AList" "HOL-Library.Sublist"
begin

section \<open>JavaScript values used by \<open>smoke/bootstrap.ts\<close>\<close>

text \<open>
  The development embeds the extended variant of \<open>smoke/bootstrap.ts\<close> (the second
  document of the source file: the one with \<open>ENFORCE_THRESHOLDS\<close>, the metrics
  aggregation and \<open>handleSummary\<close>).

  A JavaScript \<open>number\<close> is an IEEE double. It is modelled by its exact value: the three
  special values, or a rational (every finite double is one; the sign of zero is not
  kept, and no operation below looks at it).
\<close>

datatype jsnum = NaN | PosInf | NegInf | Fin rat

text \<open>The relational operator \<open>a < b\<close>; \<open>a > b\<close> is \<open>b < a\<close>. False when either side is NaN.\<close>

fun js_lt :: "jsnum \<Rightarrow> jsnum \<Rightarrow> bool" where
  "js_lt NaN _ = False"
| "js_lt _ NaN = False"
| "js_lt PosInf _ = False"
| "js_lt _ NegInf = False"
| "js_lt NegInf _ = True"
| "js_lt _ PosInf = True"
| "js_lt (Fin a) (Fin b) = (a < b)"

definition js_gt :: "jsnum \<Rightarrow> jsnum \<Rightarrow> bool" where
  "js_gt a b = js_lt b a"

definition Number_isNaN :: "jsnum \<Rightarrow> bool" where
  "Number_isNaN x = (x = NaN)"

text \<open>\<open>Math.round\<close>: the nearest integer, ties towards \<open>+\<infinity>\<close>; exact on doubles.\<close>

fun Math_round :: "jsnum \<Rightarrow> jsnum" where
  "Math_round (Fin r) = Fin (of_int \<lfloor>r + 1 / 2\<rfloor>)"
| "Math_round x = x"

fun Math_floor :: "jsnum \<Rightarrow> jsnum" where
  "Math_floor (Fin r) = Fin (of_int \<lfloor>r\<rfloor>)"
| "Math_floor x = x"

definition Math_max :: "jsnum \<Rightarrow> jsnum \<Rightarrow> jsnum" where
  "Math_max a b = (if a = NaN \<or> b = NaN then NaN else if js_lt a b then b else a)"

text \<open>
  \<open>a / b\<close> and \<open>a % b\<close>, computed on the exact values. \<open>%\<close> is exact on doubles. The
  quotient of two doubles is rounded by the machine; the one division of the program,
  \<open>Math.floor(safeSeconds / 60)\<close>, is taken on an integer and floored at once, and for
  integers up to \<open>2 ^ 53\<close> the floor of the rounded quotient is the floor of the exact
  one (the rounding error is below \<open>1 / 64\<close>, a non-integer quotient is at least
  \<open>1 / 60\<close> away from an integer).
\<close>

fun js_divide :: "jsnum \<Rightarrow> jsnum \<Rightarrow> jsnum" where
  "js_divide NaN _ = NaN"
| "js_divide _ NaN = NaN"
| "js_divide (Fin a) (Fin b) =
     (if b = 0 then (if a = 0 then NaN else if 0 < a then PosInf else NegInf)
      else Fin (a / b))"
| "js_divide (Fin a) _ = Fin 0"
| "js_divide PosInf (Fin b) = (if 0 \<le> b then PosInf else NegInf)"
| "js_divide NegInf (Fin b) = (if 0 \<le> b then NegInf else PosInf)"
| "js_divide _ _ = NaN"

fun js_rem :: "jsnum \<Rightarrow> jsnum \<Rightarrow> jsnum" where
  "js_rem (Fin a) (Fin b) =
     (if b = 0 then NaN
      else Fin (a - b * of_int (if 0 \<le> a / b then \<lfloor>a / b\<rfloor> else \<lceil>a / b\<rceil>)))"
| "js_rem (Fin a) PosInf = Fin a"
| "js_rem (Fin a) NegInf = Fin a"
| "js_rem _ _ = NaN"

text \<open>Decimal digits of an integer, as a template literal prints it.\<close>

definition digit_char :: "nat \<Rightarrow> char" where
  "digit_char d = char_of (48 + d)"

fun string_of_nat :: "nat \<Rightarrow> string" where
  "string_of_nat n =
     (if n < 10 then [digit_char n] else string_of_nat (n div 10) @ [digit_char (n mod 10)])"

declare string_of_nat.simps [simp del]

definition string_of_int :: "int \<Rightarrow> string" where
  "string_of_int i = (if i < 0 then CHR ''-'' # string_of_nat (nat (- i)) else string_of_nat (nat i))"

datatype jsval =
    JNull
  | JBool bool
  | JNum jsnum
  | JStr string
  | JArr "jsval list"
  | JObj "(string \<times> jsval) list"

datatype js_error = SyntaxError string

text \<open>
  What the language runtime does and the repository does not define is a parameter of
  the model:
  \<^item> \<open>StringToNumber\<close>: \<open>Number(s)\<close> on the strings not covered by \<open>Number\<close> below
    (the nearest double of a decimal literal, hexadecimal literals, white space, ...);
  \<^item> \<open>NumberToString\<close>: the digits of a finite number that is not an integer of
    magnitude up to \<open>2 ^ 53\<close> (those print as their decimal digits);
  \<^item> \<open>JSON_parse\<close>: \<open>JSON.parse\<close>, which returns a value or throws;
  \<^item> \<open>toFixed\<close>, \<open>toLocaleString\<close>: number formatting;
  \<^item> \<open>times\<close>, \<open>minus\<close>, \<open>divided\<close>: the rounded double product, difference and
    quotient, where the result is only printed.
\<close>

record js_runtime =
  StringToNumber :: "string \<Rightarrow> jsnum"
  NumberToString :: "rat \<Rightarrow> string"
  JSON_parse :: "string \<Rightarrow> js_error + jsval"
  toFixed :: "jsnum \<Rightarrow> nat \<Rightarrow> string"
  toLocaleString :: "jsnum \<Rightarrow> string"
  times :: "jsnum \<Rightarrow> jsnum \<Rightarrow> jsnum"
  minus :: "jsnum \<Rightarrow> jsnum \<Rightarrow> jsnum"
  divided :: "jsnum \<Rightarrow> jsnum \<Rightarrow> jsnum"

text \<open>\<open>`${x}`\<close> for a number \<open>x\<close>.\<close>

definition ToString :: "js_runtime \<Rightarrow> jsnum \<Rightarrow> string" where
  "ToString rt x =
     (case x of
        NaN \<Rightarrow> ''NaN''
      | PosInf \<Rightarrow> ''Infinity''
      | NegInf \<Rightarrow> ''-Infinity''
      | Fin r \<Rightarrow>
          if r = of_int \<lfloor>r\<rfloor> \<and> \<bar>r\<bar> \<le> 2 ^ 53 then string_of_int \<lfloor>r\<rfloor>
          else NumberToString rt r)"

text \<open>
  \<open>Number(s)\<close> for a string: the empty string is 0, \<open>Infinity\<close> is read with an optional
  sign, a string of decimal digits up to \<open>2 ^ 53\<close> is that integer; every other string is
  left to the runtime.
\<close>

definition is_digit :: "char \<Rightarrow> bool" where
  "is_digit c = (48 \<le> (of_char c :: nat) \<and> (of_char c :: nat) \<le> 57)"

definition int_of_digits :: "string \<Rightarrow> int" where
  "int_of_digits s = foldl (\<lambda>acc c. 10 * acc + (of_char c - 48)) 0 s"

definition Number :: "js_runtime \<Rightarrow> string \<Rightarrow> jsnum" where
  "Number rt s =
     (if s = [] then Fin 0
      else if s = ''Infinity'' \<or> s = ''+Infinity'' then PosInf
      else if s = ''-Infinity'' then NegInf
      else if list_all is_digit s \<and> int_of_digits s \<le> 2 ^ 53 then Fin (of_int (int_of_digits s))
      else StringToNumber rt s)"

text \<open>
  \<open>toUpperCase\<close> and \<open>toLowerCase\<close> on the ASCII letters; strings are byte strings, and
  the environment values the program compares are ASCII.
\<close>

definition upper_char :: "char \<Rightarrow> char" where
  "upper_char c =
     (if 97 \<le> (of_char c :: nat) \<and> (of_char c :: nat) \<le> 122 then char_of ((of_char c :: nat) - 32)
      else c)"

definition lower_char :: "char \<Rightarrow> char" where
  "lower_char c =
     (if 65 \<le> (of_char c :: nat) \<and> (of_char c :: nat) \<le> 90 then char_of ((of_char c :: nat) + 32)
      else c)"

definition toUpperCase :: "string \<Rightarrow> string" where
  "toUpperCase s = map upper_char s"

definition toLowerCase :: "string \<Rightarrow> string" where
  "toLowerCase s = map lower_char s"

text \<open>\<open>a ?? b\<close> on an optional value.\<close>

definition nullish :: "'a option \<Rightarrow> 'a \<Rightarrow> 'a" where
  "nullish a b = (case a of None \<Rightarrow> b | Some v \<Rightarrow> v)"

text \<open>\<open>{...a, ...b}\<close>: the properties of \<open>b\<close> replace those of \<open>a\<close> in place or follow them.\<close>

definition obj_spread :: "(string \<times> jsval) list \<Rightarrow> (string \<times> jsval) list \<Rightarrow> (string \<times> jsval) list" where
  "obj_spread a b = fold (\<lambda>kv. AList.update (fst kv) (snd kv)) b a"


section \<open>The environment and the run configuration\<close>

text \<open>\<open>__ENV\<close>: each variable is a string or absent.\<close>

record env =
  MODE :: "string option"
  CUSTOM_VUS :: "string option"
  CUSTOM_DURATION_SECONDS :: "string option"
  ENFORCE_THRESHOLDS :: "string option"
  TARGET_URL :: "string option"
  API_BASE_URL :: "string option"
  HTTP_HEADERS :: "string option"

record profile =
  vus :: jsnum
  duration :: string

record scenario_table =
  SMOKE :: profile
  STRESS :: profile
  SOAK :: profile
  SPIKE :: profile
  CUSTOM :: profile

definition scenarioOptions_literal :: scenario_table where
  "scenarioOptions_literal =
     \<lparr> SMOKE = \<lparr> vus = Fin 2, duration = ''30s'' \<rparr>,
       STRESS = \<lparr> vus = Fin 5, duration = ''1m'' \<rparr>,
       SOAK = \<lparr> vus = Fin 3, duration = ''2m'' \<rparr>,
       SPIKE = \<lparr> vus = Fin 10, duration = ''20s'' \<rparr>,
       CUSTOM = \<lparr> vus = Fin 20, duration = ''1m'' \<rparr> \<rparr>"

definition formatDurationSeconds :: "js_runtime \<Rightarrow> jsnum \<Rightarrow> string" where
  "formatDurationSeconds rt totalSeconds =
     (let safeSeconds = Math_max (Fin 1) totalSeconds;
          minutes = Math_floor (js_divide safeSeconds (Fin 60));
          seconds = js_rem safeSeconds (Fin 60);
          parts0 = (if js_gt minutes (Fin 0) then [ToString rt minutes @ ''m''] else []);
          parts1 = (if js_gt seconds (Fin 0) \<or> length parts0 = 0
                    then parts0 @ [ToString rt seconds @ ''s''] else parts0)
      in concat parts1)"

definition customVusOverride :: "js_runtime \<Rightarrow> env \<Rightarrow> jsnum" where
  "customVusOverride rt e = Number rt (nullish (CUSTOM_VUS e) '''')"

definition customDurationOverride :: "js_runtime \<Rightarrow> env \<Rightarrow> jsnum" where
  "customDurationOverride rt e = Number rt (nullish (CUSTOM_DURATION_SECONDS e) '''')"

text \<open>\<open>scenarioOptions\<close> after the two conditional assignments to \<open>scenarioOptions.CUSTOM\<close>.\<close>

definition scenarioOptions :: "js_runtime \<Rightarrow> env \<Rightarrow> scenario_table" where
  "scenarioOptions rt e =
     (let t0 = scenarioOptions_literal;
          t1 = (if \<not> Number_isNaN (customVusOverride rt e) \<and> js_gt (customVusOverride rt e) (Fin 0)
                then t0 \<lparr> CUSTOM := (CUSTOM t0) \<lparr> vus := Math_round (customVusOverride rt e) \<rparr> \<rparr>
                else t0);
          t2 = (if \<not> Number_isNaN (customDurationOverride rt e)
                   \<and> js_gt (customDurationOverride rt e) (Fin 0)
                then t1 \<lparr> CUSTOM := (CUSTOM t1)
                       \<lparr> duration := formatDurationSeconds rt (Math_round (customDurationOverride rt e)) \<rparr> \<rparr>
                else t1)
      in t2)"

definition selectedMode :: "env \<Rightarrow> string" where
  "selectedMode e = toUpperCase (nullish (MODE e) ''SMOKE'')"

definition enforceThresholds :: "env \<Rightarrow> bool" where
  "enforceThresholds e = (toLowerCase (nullish (ENFORCE_THRESHOLDS e) ''false'') = ''true'')"

text \<open>\<open>scenarioOptions[name]\<close>: the table has the five keys of the literal and no other.\<close>

definition scenario_lookup :: "scenario_table \<Rightarrow> string \<Rightarrow> profile option" where
  "scenario_lookup t name =
     (if name = ''SMOKE'' then Some (SMOKE t)
      else if name = ''STRESS'' then Some (STRESS t)
      else if name = ''SOAK'' then Some (SOAK t)
      else if name = ''SPIKE'' then Some (SPIKE t)
      else if name = ''CUSTOM'' then Some (CUSTOM t)
      else None)"

definition profile_props :: "profile \<Rightarrow> (string \<times> jsval) list" where
  "profile_props p = [(''vus'', JNum (vus p)), (''duration'', JStr (duration p))]"

definition options :: "js_runtime \<Rightarrow> env \<Rightarrow> (string \<times> jsval) list" where
  "options rt e =
     obj_spread
       (obj_spread
          (profile_props
             (nullish (scenario_lookup (scenarioOptions rt e) (selectedMode e))
                      (SMOKE (scenarioOptions rt e))))
          [(''summaryTrendStats'',
            JArr (map JStr [''avg'', ''min'', ''med'', ''max'', ''p(75)'', ''p(90)'', ''p(95)'', ''p(99)'']))])
       (if enforceThresholds e
        then [(''thresholds'',
               JObj [(''http_req_failed'', JArr [JStr ''rate<0.05'']),
                     (''http_req_duration'', JArr [JStr ''p(95)<3500''])])]
        else [])"

text \<open>
  A runtime instance on which the model is evaluated at concrete inputs. Its tables hold
  the values of the real functions on the strings used below: \<open>Number("7.6")\<close> is the
  double nearest to 7.6, \<open>Number("0.25")\<close> is exactly a quarter, \<open>JSON.parse\<close>
  rejects \<open>{not json\<close> and the empty string and reads \<open>42\<close> and \<open>{}\<close>.
\<close>

definition plain_runtime :: js_runtime where
  "plain_runtime =
     \<lparr> StringToNumber =
         (\<lambda>s. if s = ''7.6'' then Fin (4278419646001971 / 562949953421312)
              else if s = ''0.25'' then Fin (1 / 4)
              else NaN),
       NumberToString = (\<lambda>r. ''?''),
       JSON_parse =
         (\<lambda>s. if s = ''42'' then Inr (JNum (Fin 42))
              else if s = ''{}'' then Inr (JObj [])
              else Inl (SyntaxError ''Unexpected token'')),
       toFixed = (\<lambda>x d. ''?''),
       toLocaleString = (\<lambda>x. ''?''),
       times = (\<lambda>a b. NaN),
       minus = (\<lambda>a b. NaN),
       divided = (\<lambda>a b. NaN) \<rparr>"

definition empty_env :: env where
  "empty_env =
     \<lparr> MODE = None, CUSTOM_VUS = None, CUSTOM_DURATION_SECONDS = None, ENFORCE_THRESHOLDS = None,
       TARGET_URL = None, API_BASE_URL = None, HTTP_HEADERS = None \<rparr>"



section \<open>The request descriptor\<close>

definition targetUrl :: "env \<Rightarrow> string option" where
  "targetUrl e = (case TARGET_URL e of None \<Rightarrow> API_BASE_URL e | Some u \<Rightarrow> Some u)"

text \<open>
  The module-level \<open>headers\<close>: the value bound to \<open>headers\<close> and the \<open>console.warn\<close>
  calls made, or the exception that leaves the block. \<open>if (__ENV.HTTP_HEADERS)\<close> is
  false for an absent variable and for the empty string.
\<close>

definition headers :: "js_runtime \<Rightarrow> env \<Rightarrow> js_error + (jsval \<times> (string \<times> js_error) list)" where
  "headers rt e =
     (case HTTP_HEADERS e of
        None \<Rightarrow> Inr (JObj [], [])
      | Some blob \<Rightarrow>
          if blob = [] then Inr (JObj [], [])
          else (case JSON_parse rt blob of
                  Inr v \<Rightarrow> Inr (v, [])
                | Inl error \<Rightarrow>
                    Inr (JObj [],
                         [(''Unable to parse HTTP_HEADERS env. Falling back to no headers.'', error)])))"


section \<open>The per-iteration entry point \<open>runScenario\<close>\<close>

text \<open>
  A response of the transport: its status and its error text (empty when there is none).
  A value thrown by the transport is kept as its \<open>message\<close>, \<open>None\<close> when the thrown value
  is null or carries no message.
\<close>

record response =
  status :: int
  error :: string

datatype thrown = Thrown "string option"

fun thrown_message :: "thrown \<Rightarrow> string option" where
  "thrown_message (Thrown m) = m"

type_synonym transport_result = "thrown + response"

datatype bucket = auth | client | server

record ErrorSample =
  sample_status :: int
  sample_message :: string
  sample_url :: string

text \<open>
  The module state written by \<open>runScenario\<close>: the trend, counters, \<open>statusCounts\<close> (an
  object, as a list of entries in insertion order), \<open>statusOrder\<close>, \<open>dataErrors\<close>, and
  what the iteration hands to the runtime: the checks recorded, the lines logged, the
  seconds slept.
\<close>

record run_state =
  statusTrend :: "int list"
  statusCounts :: "(int \<times> nat) list"
  statusOrder :: "int list"
  authErrorCounter :: nat
  clientErrorCounter :: nat
  serverErrorCounter :: nat
  dataErrors :: "bucket \<Rightarrow> ErrorSample list"
  checks :: "(string \<times> bool) list"
  console_log :: "string list"
  slept :: nat

definition initial_state :: run_state where
  "initial_state =
     \<lparr> statusTrend = [], statusCounts = [], statusOrder = [],
       authErrorCounter = 0, clientErrorCounter = 0, serverErrorCounter = 0,
       dataErrors = (\<lambda>b. []), checks = [], console_log = [], slept = 0 \<rparr>"

definition bucket_of :: "int \<Rightarrow> bucket" where
  "bucket_of st =
     (if st = 401 \<or> st = 403 then auth
      else if st \<ge> 500 \<or> st = 0 then server
      else client)"

definition push_capped :: "ErrorSample list \<Rightarrow> ErrorSample \<Rightarrow> ErrorSample list" where
  "push_capped existing x = (if length existing < 3 then existing @ [x] else existing)"

definition count_error :: "bucket \<Rightarrow> run_state \<Rightarrow> run_state" where
  "count_error b s =
     (if b = auth then s \<lparr> authErrorCounter := authErrorCounter s + 1 \<rparr>
      else if b = client then s \<lparr> clientErrorCounter := clientErrorCounter s + 1 \<rparr>
      else s \<lparr> serverErrorCounter := serverErrorCounter s + 1 \<rparr>)"

definition classify :: "string \<Rightarrow> response \<Rightarrow> run_state \<Rightarrow> run_state" where
  "classify url r s =
     (if status r = 0 \<or> status r \<ge> 400 then
        (let b = bucket_of (status r);
             existing = push_capped (dataErrors s b)
               \<lparr> sample_status = status r,
                 sample_message = (if error r = [] then ''HTTP '' @ string_of_int (status r) else error r),
                 sample_url = url \<rparr>
         in count_error b (s \<lparr> dataErrors := (dataErrors s)(b := existing) \<rparr>))
      else s)"

definition runScenario :: "string option \<Rightarrow> transport_result \<Rightarrow> run_state \<Rightarrow> thrown + run_state" where
  "runScenario target transport s =
     (case target of
        None \<Rightarrow>
          Inr (s \<lparr> console_log := console_log s @ [''Skipping load test: TARGET_URL/API_BASE_URL is not set.''],
                  slept := slept s + 1 \<rparr>)
      | Some url \<Rightarrow>
          if url = [] then
            Inr (s \<lparr> console_log := console_log s @ [''Skipping load test: TARGET_URL/API_BASE_URL is not set.''],
                    slept := slept s + 1 \<rparr>)
          else
            (case transport of
               Inl err \<Rightarrow>
                 (let existing = push_capped (dataErrors s server)
                        \<lparr> sample_status = 0,
                          sample_message = nullish (thrown_message err) ''request threw'',
                          sample_url = url \<rparr>
                  in Inr (s \<lparr> dataErrors := (dataErrors s)(server := existing),
                              serverErrorCounter := serverErrorCounter s + 1,
                              slept := slept s + 1 \<rparr>))
             | Inr r \<Rightarrow>
                 (let s1 = s \<lparr> checks := checks s @ [(''status is < 400'', status r \<noteq> 0 \<and> status r < 400)] \<rparr>;
                      s2 = s1 \<lparr> statusTrend := statusTrend s1 @ [status r] \<rparr>;
                      s3 = s2 \<lparr> statusCounts :=
                                  AList.update (status r) (nullish (map_of (statusCounts s2) (status r)) 0 + 1)
                                    (statusCounts s2) \<rparr>;
                      s4 = (if status r \<notin> set (statusOrder s3)
                            then s3 \<lparr> statusOrder := statusOrder s3 @ [status r] \<rparr> else s3);
                      s5 = classify url r s4
                  in Inr (s5 \<lparr> slept := slept s5 + 1 \<rparr>))))"

text \<open>
  The runtime calls \<open>runScenario\<close> once per iteration; \<open>iterations\<close> runs it on the
  transport results of the successive iterations, and stops at an exception that leaves
  an iteration.
\<close>

fun iterations :: "string option \<Rightarrow> transport_result list \<Rightarrow> run_state \<Rightarrow> thrown + run_state" where
  "iterations target [] s = Inr s"
| "iterations target (x # xs) s =
     (case runScenario target x s of Inl err \<Rightarrow> Inl err | Inr s' \<Rightarrow> iterations target xs s')"


section \<open>The summary reporter \<open>handleSummary\<close>\<close>

text \<open>
  The fields of \<open>data\<close> that \<open>handleSummary\<close> reads, each a number or missing
  (\<open>None\<close>: the optional chain met an undefined link).
\<close>

record summary_data =
  http_req_failed_rate :: "jsnum option"
  http_req_failed_values_rate :: "jsnum option"
  http_req_duration_p95 :: "jsnum option"
  latency_p95 :: "jsnum option"
  latency_p99 :: "jsnum option"
  latency_p75 :: "jsnum option"
  latency_avg :: "jsnum option"
  latency_average :: "jsnum option"
  latency_min :: "jsnum option"
  latency_max :: "jsnum option"
  latency_med :: "jsnum option"
  latency_p90 :: "jsnum option"
  http_reqs_count :: "jsnum option"
  http_reqs_rate :: "jsnum option"
  status_codes_min :: "jsnum option"
  status_codes_max :: "jsnum option"
  status_codes_med :: "jsnum option"
  status_codes_p90 :: "jsnum option"
  status_codes_p99 :: "jsnum option"
  auth_errors_count :: "jsnum option"
  client_errors_count :: "jsnum option"
  server_errors_count :: "jsnum option"
  iterations_count :: "jsnum option"
  iterations_rate :: "jsnum option"
  data_received_count :: "jsnum option"
  data_sent_count :: "jsnum option"
  vus_value :: "jsnum option"
  vus_max_max :: "jsnum option"
  checks_passes :: "jsnum option"
  checks_fails :: "jsnum option"
  testRunDurationMs :: "jsnum option"

text \<open>The literal \<open>0.05\<close> is the double nearest to one twentieth.\<close>

definition lit_0_05 :: jsnum where
  "lit_0_05 = Fin (3602879701896397 / 72057594037927936)"

definition fmtPct :: "js_runtime \<Rightarrow> jsnum option \<Rightarrow> string" where
  "fmtPct rt v = (case v of None \<Rightarrow> ''n/a'' | Some x \<Rightarrow> toFixed rt (times rt x (Fin 100)) 2 @ ''%'')"

definition fmtMs :: "js_runtime \<Rightarrow> jsnum option \<Rightarrow> string" where
  "fmtMs rt v = (case v of None \<Rightarrow> ''n/a'' | Some x \<Rightarrow> toFixed rt x 2 @ '' ms'')"

definition fmtCount :: "js_runtime \<Rightarrow> jsnum option \<Rightarrow> string" where
  "fmtCount rt v = (case v of None \<Rightarrow> ''n/a'' | Some x \<Rightarrow> toLocaleString rt x)"

definition fmtRate :: "js_runtime \<Rightarrow> jsnum option \<Rightarrow> string" where
  "fmtRate rt v = (case v of None \<Rightarrow> ''n/a'' | Some x \<Rightarrow> toFixed rt x 2 @ ''/s'')"

definition rateFailed :: "summary_data \<Rightarrow> jsnum option" where
  "rateFailed d =
     (case http_req_failed_rate d of None \<Rightarrow> http_req_failed_values_rate d | Some x \<Rightarrow> Some x)"

definition successRate :: "js_runtime \<Rightarrow> summary_data \<Rightarrow> jsnum option" where
  "successRate rt d =
     (case rateFailed d of None \<Rightarrow> None | Some x \<Rightarrow> Some (Math_max (Fin 0) (minus rt (Fin 1) x)))"

definition color :: "bool \<Rightarrow> string" where
  "color ok = (if ok then CHR 0x1B # ''[32m'' else CHR 0x1B # ''[31m'')"

definition reset :: string where
  "reset = CHR 0x1B # ''[0m''"

text \<open>\<open>xs.join(sep)\<close> on an array of strings.\<close>

fun join :: "string \<Rightarrow> string list \<Rightarrow> string" where
  "join sep [] = []"
| "join sep [x] = x"
| "join sep (x # y # ys) = x @ sep @ join sep (y # ys)"

text \<open>The line of one error bucket; the source writes the template once per bucket.\<close>

definition bucket_line :: "string \<Rightarrow> ErrorSample list \<Rightarrow> string" where
  "bucket_line label xs =
     (case xs of
        [] \<Rightarrow> ''- '' @ label @ '' errors: none''
      | x # _ \<Rightarrow>
          ''- '' @ label @ '' errors: '' @ string_of_nat (length xs)
          @ '' (example status='' @ string_of_int (sample_status x)
          @ '' url='' @ sample_url x @ '' msg='' @ sample_message x @ '')'')"

text \<open>\<open>errorsSection\<close> as it stands when \<open>sections\<close> is built, after the conditional push.\<close>

definition errorsSection :: "js_runtime \<Rightarrow> run_state \<Rightarrow> summary_data \<Rightarrow> string list" where
  "errorsSection rt st d =
     [color (js_lt (nullish (rateFailed d) (Fin 0)) lit_0_05) @ ''Errors'' @ reset,
      ''- Requests: '' @ fmtCount rt (http_reqs_count d) @ '' ('' @ fmtRate rt (http_reqs_rate d) @ '')'',
      ''- Failed rate: '' @ fmtPct rt (rateFailed d),
      ''- Success rate: '' @ fmtPct rt (successRate rt d),
      bucket_line ''Auth'' (dataErrors st auth),
      bucket_line ''Client'' (dataErrors st client),
      bucket_line ''Server'' (dataErrors st server)]
     @ (if js_gt (nullish (rateFailed d) (Fin 0)) (Fin 0)
           \<and> length (dataErrors st auth) + length (dataErrors st client) + length (dataErrors st server) = 0
        then [''- Failures detected but no error samples captured. Check connectivity/auth.'']
        else [])"

definition latencySection :: "js_runtime \<Rightarrow> summary_data \<Rightarrow> string list" where
  "latencySection rt d =
     [color (js_lt (nullish (latency_p95 d) (Fin 0)) (Fin 2200)) @ ''Latency'' @ reset,
      ''- p95: '' @ fmtMs rt (latency_p95 d),
      ''- p99: '' @ fmtMs rt (latency_p99 d),
      ''- p75: '' @ fmtMs rt (latency_p75 d),
      ''- avg: '' @ fmtMs rt (case latency_avg d of None \<Rightarrow> latency_average d | Some x \<Rightarrow> Some x),
      ''- min/max: '' @ fmtMs rt (latency_min d) @ '' / '' @ fmtMs rt (latency_max d),
      ''- p50: '' @ fmtMs rt (latency_med d) @ '' p90: '' @ fmtMs rt (latency_p90 d)]"

definition throughputSection :: "js_runtime \<Rightarrow> summary_data \<Rightarrow> string list" where
  "throughputSection rt d =
     [''Throughput'',
      ''- Iterations: '' @ fmtCount rt (iterations_count d) @ '' ('' @ fmtRate rt (iterations_rate d) @ '')'',
      ''- Data in/out: '' @ fmtCount rt (data_received_count d) @ '' bytes / ''
        @ fmtCount rt (data_sent_count d) @ '' bytes'']"

definition vusSection :: "js_runtime \<Rightarrow> summary_data \<Rightarrow> string list" where
  "vusSection rt d =
     [''Resources'',
      ''- VUs: current='' @ fmtCount rt (vus_value d) @ '' max='' @ fmtCount rt (vus_max_max d)]"

definition statusSection :: "js_runtime \<Rightarrow> run_state \<Rightarrow> summary_data \<Rightarrow> string list" where
  "statusSection rt st d =
     [''Status codes'',
      ''- min/max: '' @ fmtCount rt (status_codes_min d) @ '' / '' @ fmtCount rt (status_codes_max d),
      ''- p50/p90/p99: '' @ fmtCount rt (status_codes_med d) @ '' / '' @ fmtCount rt (status_codes_p90 d)
        @ '' / '' @ fmtCount rt (status_codes_p99 d),
      ''- top codes: ''
        @ (if length (statusOrder st) \<noteq> 0
           then join '', ''
                  (map (\<lambda>code. string_of_int code @ '' (''
                           @ string_of_nat (nullish (map_of (statusCounts st) code) 0) @ '')'')
                       (take 5 (statusOrder st)))
           else ''none captured''),
      ''- auth error count: '' @ fmtCount rt (auth_errors_count d) @ '' client: ''
        @ fmtCount rt (client_errors_count d) @ '' server: '' @ fmtCount rt (server_errors_count d)]"

definition sections :: "js_runtime \<Rightarrow> run_state \<Rightarrow> summary_data \<Rightarrow> string list" where
  "sections rt st d =
     [''=== k6 Summary ==='',
      ''Scenario: ''
        @ (case testRunDurationMs d of
             None \<Rightarrow> ''n/a''
           | Some ms \<Rightarrow>
               if ms = NaN \<or> ms = Fin 0 then ''n/a''
               else toFixed rt (divided rt ms (Fin 1000)) 1 @ ''s''),
      []]
     @ errorsSection rt st d
     @ [[]]
     @ latencySection rt d
     @ [[],
        ''Checks'',
        ''- status < 500: passes='' @ fmtCount rt (checks_passes d) @ '' fails='' @ fmtCount rt (checks_fails d),
        []]
     @ throughputSection rt d
     @ [[]]
     @ vusSection rt d
     @ [[]]
     @ statusSection rt st d"

text \<open>
  \<open>handleSummary\<close>: the \<open>console.warn\<close> lines of the advisory threshold check, and the
  \<open>stdout\<close> text returned.
\<close>

definition handleSummary :: "js_runtime \<Rightarrow> bool \<Rightarrow> run_state \<Rightarrow> summary_data \<Rightarrow> string list \<times> string" where
  "handleSummary rt enforce st d =
     ((if \<not> enforce then
         (case http_req_failed_rate d of
            None \<Rightarrow> []
          | Some failedRate \<Rightarrow>
              if js_gt failedRate lit_0_05
              then [''http_req_failed threshold exceeded (rate='' @ ToString rt failedRate
                    @ ''). Result will still be saved.'']
              else [])
         @ (case http_req_duration_p95 d of
              None \<Rightarrow> []
            | Some p95 \<Rightarrow>
                if js_gt p95 (Fin 2200)
                then [''http_req_duration threshold exceeded (p95='' @ ToString rt p95
                      @ ''ms). Result will still be saved.'']
                else [])
       else []),
      join [CHR 0x0A] (sections rt st d))"

section \<open>Definitions used to state the properties\<close>

text \<open>
  The duration string in the words of the specification, for a whole number of seconds:
  the minutes token is left out when the minutes are zero, the seconds token is left out
  when the seconds are zero and the minutes are not.
\<close>

definition spec_duration_string :: "nat \<Rightarrow> string" where
  "spec_duration_string n =
     (if n div 60 = 0 then '''' else string_of_nat (n div 60) @ ''m'')
     @ (if n mod 60 = 0 \<and> 0 < n div 60 then '''' else string_of_nat (n mod 60) @ ''s'')"

text \<open>\<open>sum(statusCounts.values())\<close> and the number of iterations whose transport call raised.\<close>

definition status_total :: "run_state \<Rightarrow> nat" where
  "status_total s = sum_list (map snd (statusCounts s))"

definition transport_failures :: "transport_result list \<Rightarrow> nat" where
  "transport_failures xs = length (filter isl xs)"

text \<open>The counter of a bucket.\<close>

definition error_counter :: "bucket \<Rightarrow> run_state \<Rightarrow> nat" where
  "error_counter b s =
     (case b of auth \<Rightarrow> authErrorCounter s | client \<Rightarrow> clientErrorCounter s | server \<Rightarrow> serverErrorCounter s)"

text \<open>
  The classification rule in the words of the specification: 401 and 403 are auth; else
  500 and above, and 0, are server; else 400 to 499 are client; any other status has no
  bucket.
\<close>

definition spec_bucket :: "int \<Rightarrow> bucket option" where
  "spec_bucket st =
     (if st = 401 \<or> st = 403 then Some auth
      else if st \<ge> 500 \<or> st = 0 then Some server
      else if 400 \<le> st \<and> st < 500 then Some client
      else None)"

text \<open>
  The error sample an iteration offers to its bucket, and the samples offered to one
  bucket by a sequence of iterations, in order of arrival.
\<close>

definition response_sample :: "string \<Rightarrow> response \<Rightarrow> ErrorSample" where
  "response_sample url r =
     \<lparr> sample_status = status r,
       sample_message = (if error r = [] then ''HTTP '' @ string_of_int (status r) else error r),
       sample_url = url \<rparr>"

definition failure_sample :: "string \<Rightarrow> thrown \<Rightarrow> ErrorSample" where
  "failure_sample url err =
     \<lparr> sample_status = 0,
       sample_message = (case thrown_message err of None \<Rightarrow> ''request threw'' | Some m \<Rightarrow> m),
       sample_url = url \<rparr>"

fun sample_of :: "string \<Rightarrow> transport_result \<Rightarrow> (bucket \<times> ErrorSample) option" where
  "sample_of url (Inl err) = Some (server, failure_sample url err)"
| "sample_of url (Inr r) =
     (case spec_bucket (status r) of None \<Rightarrow> None | Some b \<Rightarrow> Some (b, response_sample url r))"

definition samples_for :: "bucket \<Rightarrow> string \<Rightarrow> transport_result list \<Rightarrow> ErrorSample list" where
  "samples_for b url xs = map snd (filter (\<lambda>p. fst p = b) (List.map_filter (sample_of url) xs))"

text \<open>Summary data in which every field is missing.\<close>

definition empty_data :: summary_data where
  "empty_data =
     \<lparr> http_req_failed_rate = None, http_req_failed_values_rate = None, http_req_duration_p95 = None,
       latency_p95 = None, latency_p99 = None, latency_p75 = None, latency_avg = None,
       latency_average = None, latency_min = None, latency_max = None, latency_med = None,
       latency_p90 = None, http_reqs_count = None, http_reqs_rate = None,
       status_codes_min = None, status_codes_max = None, status_codes_med = None,
       status_codes_p90 = None, status_codes_p99 = None, auth_errors_count = None,
       client_errors_count = None, server_errors_count = None, iterations_count = None,
       iterations_rate = None, data_received_count = None, data_sent_count = None,
       vus_value = None, vus_max_max = None, checks_passes = None, checks_fails = None,
       testRunDurationMs = None \<rparr>"


section \<open>The run configuration\<close>

lemma js_gt_zero_iff: "js_gt x (Fin 0) \<longleftrightarrow> x = PosInf \<or> (\<exists>r. x = Fin r \<and> 0 < r)"
  by (cases x) (simp_all add: js_gt_def)

lemma options_vus:
  "map_of (options rt e) ''vus'' =
     Some (JNum (vus (nullish (scenario_lookup (scenarioOptions rt e) (selectedMode e))
                              (SMOKE (scenarioOptions rt e)))))"
  by (simp add: options_def obj_spread_def profile_props_def)

lemma options_duration:
  "map_of (options rt e) ''duration'' =
     Some (JStr (duration (nullish (scenario_lookup (scenarioOptions rt e) (selectedMode e))
                                   (SMOKE (scenarioOptions rt e)))))"
  by (simp add: options_def obj_spread_def profile_props_def)

lemma lookup_CUSTOM: "nullish (scenario_lookup t ''CUSTOM'') d = CUSTOM t"
  by (simp add: scenario_lookup_def nullish_def)

lemma CUSTOM_vus:
  "vus (CUSTOM (scenarioOptions rt e)) =
     (if js_gt (customVusOverride rt e) (Fin 0) then Math_round (customVusOverride rt e) else Fin 20)"
  by (cases "customVusOverride rt e")
     (simp_all add: scenarioOptions_def Let_def Number_isNaN_def js_gt_def scenarioOptions_literal_def)

lemma CUSTOM_duration:
  "duration (CUSTOM (scenarioOptions rt e)) =
     (if js_gt (customDurationOverride rt e) (Fin 0)
      then formatDurationSeconds rt (Math_round (customDurationOverride rt e)) else ''1m'')"
  by (cases "customDurationOverride rt e")
     (simp_all add: scenarioOptions_def Let_def Number_isNaN_def js_gt_def scenarioOptions_literal_def)

lemma Math_round_not_default:
  "\<not> js_gt x (Fin 0) \<Longrightarrow> Math_round x \<noteq> Fin 20"
proof (cases x)
  case (Fin r)
  assume "\<not> js_gt x (Fin 0)"
  with Fin have "r \<le> 0" by (simp add: js_gt_def)
  then have "\<lfloor>r + 1 / 2\<rfloor> \<le> 0" by (simp add: floor_le_iff)
  then have "(of_int \<lfloor>r + 1 / 2\<rfloor> :: rat) \<noteq> 20" by linarith
  with Fin show ?thesis by simp
qed simp_all

lemma formatDurationSeconds_int:
  assumes "1 \<le> k" and "k \<le> 2 ^ 53"
  shows "formatDurationSeconds rt (Fin (of_int k)) = spec_duration_string (nat k)"
proof -
  have ss: "Math_max (Fin 1) (Fin (of_int k)) = Fin (of_int k)"
    using assms by (simp add: Math_max_def)
  have fl: "\<lfloor>(of_int k :: rat) / 60\<rfloor> = k div 60"
    using floor_divide_of_int_eq [of k 60, where ?'a = rat] by simp
  have mins: "Math_floor (js_divide (Fin (of_int k)) (Fin 60)) = Fin (of_int (k div 60))"
    by (simp add: fl)
  have nonneg: "0 \<le> (of_int k :: rat) / 60" using assms by simp
  have "(of_int k :: rat) - 60 * of_int (k div 60) = of_int (k - 60 * (k div 60))"
    by simp
  also have "k - 60 * (k div 60) = k mod 60"
    by (simp add: minus_mult_div_eq_mod)
  finally have secs: "js_rem (Fin (of_int k)) (Fin 60) = Fin (of_int (k mod 60))"
    using nonneg by (simp add: fl)
  have small: "\<And>m::int. 0 \<le> m \<Longrightarrow> m \<le> k \<Longrightarrow> ToString rt (Fin (of_int m)) = string_of_nat (nat m)"
  proof -
    fix m :: int assume m: "0 \<le> m" "m \<le> k"
    have "m \<le> 2 ^ 53" using m assms by simp
    then have "(of_int m :: rat) \<le> of_int (2 ^ 53)"
      by (simp only: of_int_le_iff)
    then have "\<bar>(of_int m :: rat)\<bar> \<le> 2 ^ 53"
      using m by simp
    then show "ToString rt (Fin (of_int m)) = string_of_nat (nat m)"
      using m by (simp add: ToString_def string_of_int_def)
  qed
  have d: "0 \<le> k div 60" "k div 60 \<le> k" "0 \<le> k mod 60" "k mod 60 \<le> k"
    using assms by presburger+
  have nd: "nat (k div 60) = nat k div 60" "nat (k mod 60) = nat k mod 60"
    using assms by (simp_all add: nat_div_distrib nat_mod_distrib)
  have pos: "(0 < k div 60) = (0 < nat k div 60)" "(0 < k mod 60) = (0 < nat k mod 60)"
    using nd d by linarith+
  show ?thesis
    unfolding formatDurationSeconds_def Let_def ss mins secs
    using small [OF d(1) d(2)] small [OF d(3) d(4)] pos
    by (auto simp add: js_gt_def nd spec_duration_string_def)
qed



text \<open>
  Claim C6, as amended. For mode CUSTOM, the concurrency is \<open>Math.round\<close> of the
  \<open>CUSTOM_VUS\<close> override if and only if the override is greater than zero, that is a
  positive finite number or \<open>+Infinity\<close> (for which the concurrency is \<open>Infinity\<close>); for
  every other override (absent, NaN, zero, negative, \<open>-Infinity\<close>) the concurrency stays
  the default 20. No case raises an error: \<open>options\<close> is a total function.
\<close>

theorem custom_vus_override:
  assumes "selectedMode e = ''CUSTOM''"
  shows "(js_gt (customVusOverride rt e) (Fin 0) \<longleftrightarrow>
            customVusOverride rt e = PosInf \<or> (\<exists>r. customVusOverride rt e = Fin r \<and> 0 < r))
         \<and> (js_gt (customVusOverride rt e) (Fin 0) \<longrightarrow>
              map_of (options rt e) ''vus'' = Some (JNum (Math_round (customVusOverride rt e))))
         \<and> (\<not> js_gt (customVusOverride rt e) (Fin 0) \<longrightarrow>
              map_of (options rt e) ''vus'' = Some (JNum (Fin 20)))
         \<and> (map_of (options rt e) ''vus'' = Some (JNum (Math_round (customVusOverride rt e)))
              \<longleftrightarrow> js_gt (customVusOverride rt e) (Fin 0))
         \<and> (CUSTOM_VUS e = None \<longrightarrow> map_of (options rt e) ''vus'' = Some (JNum (Fin 20)))"
proof -
  let ?x = "customVusOverride rt e"
  have v: "map_of (options rt e) ''vus'' =
             Some (JNum (if js_gt ?x (Fin 0) then Math_round ?x else Fin 20))"
    by (simp add: options_vus assms lookup_CUSTOM CUSTOM_vus)
  have absent: "CUSTOM_VUS e = None \<Longrightarrow> \<not> js_gt ?x (Fin 0)"
    by (simp add: customVusOverride_def nullish_def Number_def js_gt_def)
  show ?thesis
    using v absent Math_round_not_default [of ?x] js_gt_zero_iff [of ?x]
    by auto
qed

text \<open>\<open>CUSTOM_VUS=7.6\<close> resolves to 8, and an absent variable to 20.\<close>

theorem custom_vus_override_witness:
  "selectedMode (empty_env \<lparr> MODE := Some ''custom'', CUSTOM_VUS := Some ''7.6'' \<rparr>) = ''CUSTOM''
   \<and> js_gt (customVusOverride plain_runtime (empty_env \<lparr> MODE := Some ''custom'', CUSTOM_VUS := Some ''7.6'' \<rparr>)) (Fin 0)
   \<and> map_of (options plain_runtime (empty_env \<lparr> MODE := Some ''custom'', CUSTOM_VUS := Some ''7.6'' \<rparr>)) ''vus''
       = Some (JNum (Fin 8))
   \<and> selectedMode (empty_env \<lparr> MODE := Some ''custom'' \<rparr>) = ''CUSTOM''
   \<and> CUSTOM_VUS (empty_env \<lparr> MODE := Some ''custom'' \<rparr>) = None
   \<and> \<not> js_gt (customVusOverride plain_runtime (empty_env \<lparr> MODE := Some ''custom'' \<rparr>)) (Fin 0)
   \<and> map_of (options plain_runtime (empty_env \<lparr> MODE := Some ''custom'' \<rparr>)) ''vus'' = Some (JNum (Fin 20))"
proof -
  let ?e = "empty_env \<lparr> MODE := Some ''custom'', CUSTOM_VUS := Some ''7.6'' \<rparr>"
  let ?d = "empty_env \<lparr> MODE := Some ''custom'' \<rparr>"
  have m: "selectedMode ?e = ''CUSTOM''" "selectedMode ?d = ''CUSTOM''"
    by code_simp+
  have x: "customVusOverride plain_runtime ?e = Fin (4278419646001971 / 562949953421312)"
    by code_simp
  have g: "js_gt (customVusOverride plain_runtime ?e) (Fin 0)"
    by code_simp
  have r: "Math_round (customVusOverride plain_runtime ?e) = Fin 8"
    by code_simp
  have a: "CUSTOM_VUS ?d = None"
    by (simp add: empty_env_def)
  have n: "\<not> js_gt (customVusOverride plain_runtime ?d) (Fin 0)"
    by code_simp
  show ?thesis
    using m g r a n custom_vus_override [OF m(1), of plain_runtime]
      custom_vus_override [OF m(2), of plain_runtime]
    by simp
qed

text \<open>
  The claim as stated fails for a non-finite override: \<open>CUSTOM_VUS=Infinity\<close> passes the
  guard \<open>!Number.isNaN(x) && x > 0\<close>, and the concurrency is \<open>Infinity\<close>, not 20.
\<close>

theorem custom_vus_infinity_counterexample:
  "selectedMode (empty_env \<lparr> MODE := Some ''CUSTOM'', CUSTOM_VUS := Some ''Infinity'' \<rparr>) = ''CUSTOM''
   \<and> customVusOverride plain_runtime (empty_env \<lparr> MODE := Some ''CUSTOM'', CUSTOM_VUS := Some ''Infinity'' \<rparr>) = PosInf
   \<and> map_of (options plain_runtime (empty_env \<lparr> MODE := Some ''CUSTOM'', CUSTOM_VUS := Some ''Infinity'' \<rparr>)) ''vus''
       = Some (JNum PosInf)
   \<and> map_of (options plain_runtime (empty_env \<lparr> MODE := Some ''CUSTOM'', CUSTOM_VUS := Some ''Infinity'' \<rparr>)) ''vus''
       \<noteq> Some (JNum (Fin 20))"
  by code_simp

text \<open>
  Claim C7, as amended. For mode CUSTOM and a finite positive duration override of \<open>s\<close>
  seconds, rounding to at most \<open>2 ^ 53\<close>, the duration string is the format of the
  specification applied to \<open>max(1, round(s))\<close>: the minutes token is left out when the
  minutes are zero, the seconds token is left out when the seconds are zero and the
  minutes are not. (Above \<open>2 ^ 53\<close> the division is no longer exact in the program.)
\<close>

theorem custom_duration_override:
  assumes "selectedMode e = ''CUSTOM''"
    and "customDurationOverride rt e = Fin s"
    and "0 < s"
    and "\<lfloor>s + 1 / 2\<rfloor> \<le> 2 ^ 53"
  shows "map_of (options rt e) ''duration''
           = Some (JStr (spec_duration_string (max 1 (nat \<lfloor>s + 1 / 2\<rfloor>))))"
proof -
  let ?n = "\<lfloor>s + 1 / 2\<rfloor>"
  have n0: "0 \<le> ?n" using assms(3) by (simp add: le_floor_iff)
  have g: "js_gt (customDurationOverride rt e) (Fin 0)"
    using assms by (simp add: js_gt_def)
  have d: "map_of (options rt e) ''duration'' = Some (JStr (formatDurationSeconds rt (Fin (of_int ?n))))"
    using g by (simp add: options_duration assms(1,2) lookup_CUSTOM CUSTOM_duration)
  show ?thesis
  proof (cases "?n = 0")
    case True
    have "formatDurationSeconds rt (Fin (of_int (0::int))) = formatDurationSeconds rt (Fin (of_int (1::int)))"
      by (simp add: formatDurationSeconds_def Math_max_def)
    also have "\<dots> = spec_duration_string (nat 1)"
      by (rule formatDurationSeconds_int) simp_all
    finally show ?thesis using d True by simp
  next
    case False
    with n0 have n1: "1 \<le> ?n" by linarith
    have "max 1 (nat ?n) = nat ?n" using n1 by linarith
    then show ?thesis
      using d formatDurationSeconds_int [OF n1 assms(4), of rt] by simp
  qed
qed

text \<open>125 seconds give \<open>2m5s\<close>, 60 give \<open>1m\<close>, 45 give \<open>45s\<close>.\<close>

theorem custom_duration_override_witness:
  "map_of (options plain_runtime (empty_env \<lparr> MODE := Some ''custom'', CUSTOM_DURATION_SECONDS := Some ''125'' \<rparr>)) ''duration''
     = Some (JStr ''2m5s'')
   \<and> map_of (options plain_runtime (empty_env \<lparr> MODE := Some ''custom'', CUSTOM_DURATION_SECONDS := Some ''60'' \<rparr>)) ''duration''
     = Some (JStr ''1m'')
   \<and> map_of (options plain_runtime (empty_env \<lparr> MODE := Some ''custom'', CUSTOM_DURATION_SECONDS := Some ''45'' \<rparr>)) ''duration''
     = Some (JStr ''45s'')"
proof -
  let ?e = "\<lambda>v. empty_env \<lparr> MODE := Some ''custom'', CUSTOM_DURATION_SECONDS := Some v \<rparr>"
  have m: "selectedMode (?e ''125'') = ''CUSTOM''" "selectedMode (?e ''60'') = ''CUSTOM''"
    "selectedMode (?e ''45'') = ''CUSTOM''"
    by code_simp+
  have x: "customDurationOverride plain_runtime (?e ''125'') = Fin 125"
    "customDurationOverride plain_runtime (?e ''60'') = Fin 60"
    "customDurationOverride plain_runtime (?e ''45'') = Fin 45"
    by code_simp+
  have s: "spec_duration_string (max 1 (nat \<lfloor>(125::rat) + 1 / 2\<rfloor>)) = ''2m5s''"
    "spec_duration_string (max 1 (nat \<lfloor>(60::rat) + 1 / 2\<rfloor>)) = ''1m''"
    "spec_duration_string (max 1 (nat \<lfloor>(45::rat) + 1 / 2\<rfloor>)) = ''45s''"
    by code_simp+
  show ?thesis
    using custom_duration_override [OF m(1) x(1)] custom_duration_override [OF m(2) x(2)]
      custom_duration_override [OF m(3) x(3)] s
    by simp
qed

text \<open>
  The claim as stated fails where the override rounds to zero: a quarter of a second
  rounds to 0, whose format is \<open>0s\<close>, and the program, which takes \<open>Math.max(1, \<dots>)\<close>
  first, answers \<open>1s\<close>.
\<close>

theorem custom_duration_quarter_counterexample:
  "selectedMode (empty_env \<lparr> MODE := Some ''CUSTOM'', CUSTOM_DURATION_SECONDS := Some ''0.25'' \<rparr>) = ''CUSTOM''
   \<and> customDurationOverride plain_runtime (empty_env \<lparr> MODE := Some ''CUSTOM'', CUSTOM_DURATION_SECONDS := Some ''0.25'' \<rparr>) = Fin (1 / 4)
   \<and> Math_round (Fin (1 / 4)) = Fin 0
   \<and> spec_duration_string 0 = ''0s''
   \<and> map_of (options plain_runtime (empty_env \<lparr> MODE := Some ''CUSTOM'', CUSTOM_DURATION_SECONDS := Some ''0.25'' \<rparr>)) ''duration''
       = Some (JStr ''1s'')"
  by code_simp


section \<open>The request headers\<close>

text \<open>
  Claim C8, as amended. For every non-empty \<open>HTTP_HEADERS\<close> value on which \<open>JSON.parse\<close>
  throws, the headers are the empty mapping, one warning is emitted, and nothing is
  thrown. A value that \<open>JSON.parse\<close> accepts becomes the headers as parsed, mapping or
  not, without a warning; an empty or absent value gives the empty mapping without a
  warning. Header resolution never throws.
\<close>

theorem headers_fallback:
  "(\<forall>b err. HTTP_HEADERS e = Some b \<and> b \<noteq> [] \<and> JSON_parse rt b = Inl err \<longrightarrow>
       headers rt e
         = Inr (JObj [], [(''Unable to parse HTTP_HEADERS env. Falling back to no headers.'', err)]))
   \<and> (\<forall>b v. HTTP_HEADERS e = Some b \<and> b \<noteq> [] \<and> JSON_parse rt b = Inr v \<longrightarrow>
       headers rt e = Inr (v, []))
   \<and> (HTTP_HEADERS e = None \<or> HTTP_HEADERS e = Some [] \<longrightarrow> headers rt e = Inr (JObj [], []))
   \<and> (\<exists>res. headers rt e = Inr res)"
  by (auto simp add: headers_def split: option.split sum.split)

theorem headers_fallback_witness:
  "HTTP_HEADERS (empty_env \<lparr> HTTP_HEADERS := Some ''{not json'' \<rparr>) = Some ''{not json''
   \<and> ''{not json'' \<noteq> []
   \<and> JSON_parse plain_runtime ''{not json'' = Inl (SyntaxError ''Unexpected token'')
   \<and> headers plain_runtime (empty_env \<lparr> HTTP_HEADERS := Some ''{not json'' \<rparr>)
       = Inr (JObj [], [(''Unable to parse HTTP_HEADERS env. Falling back to no headers.'',
                         SyntaxError ''Unexpected token'')])"
proof -
  have h: "HTTP_HEADERS (empty_env \<lparr> HTTP_HEADERS := Some ''{not json'' \<rparr>) = Some ''{not json''"
    by simp
  have n: "''{not json'' \<noteq> []" by simp
  have p: "JSON_parse plain_runtime ''{not json'' = Inl (SyntaxError ''Unexpected token'')"
    by (simp add: plain_runtime_def)
  show ?thesis
    using h n p headers_fallback [of "empty_env \<lparr> HTTP_HEADERS := Some ''{not json'' \<rparr>" plain_runtime]
    by blast
qed

text \<open>
  The claim as stated fails on a present value that does not parse as a key-value
  mapping in two ways: \<open>42\<close> is valid JSON, so the headers become the number 42 and no
  warning is emitted; the empty string is not parsed at all, so no warning is emitted.
\<close>

theorem headers_not_mapping_counterexample:
  "JSON_parse plain_runtime ''42'' = Inr (JNum (Fin 42))
   \<and> headers plain_runtime (empty_env \<lparr> HTTP_HEADERS := Some ''42'' \<rparr>) = Inr (JNum (Fin 42), [])
   \<and> HTTP_HEADERS (empty_env \<lparr> HTTP_HEADERS := Some [] \<rparr>) = Some []
   \<and> headers plain_runtime (empty_env \<lparr> HTTP_HEADERS := Some [] \<rparr>) = Inr (JObj [], [])"
  by (simp add: headers_def plain_runtime_def empty_env_def)


section \<open>The iteration\<close>

lemma sum_update_increment:
  fixes al :: "(int \<times> nat) list"
  shows "sum_list (map snd (AList.update k (Suc (nullish (map_of al k) 0)) al)) = Suc (sum_list (map snd al))"
  by (induction al) (auto simp: nullish_def)

lemma runScenario_skip:
  "target = None \<or> target = Some [] \<Longrightarrow>
   runScenario target x s =
     Inr (s \<lparr> console_log := console_log s @ [''Skipping load test: TARGET_URL/API_BASE_URL is not set.''],
             slept := slept s + 1 \<rparr>)"
  by (auto simp: runScenario_def)

lemma runScenario_raised:
  "url \<noteq> [] \<Longrightarrow>
   runScenario (Some url) (Inl err) s =
     Inr (s \<lparr> dataErrors := (dataErrors s)(server := push_capped (dataErrors s server) (failure_sample url err)),
             serverErrorCounter := serverErrorCounter s + 1,
             slept := slept s + 1 \<rparr>)"
  by (simp add: runScenario_def failure_sample_def nullish_def)

lemma bucket_of_spec:
  "st = 0 \<or> st \<ge> 400 \<Longrightarrow> spec_bucket st = Some (bucket_of st)"
  "\<not> (st = 0 \<or> st \<ge> 400) \<Longrightarrow> spec_bucket st = None"
  by (auto simp: spec_bucket_def bucket_of_def)

lemma classify_spec:
  "classify url r s =
     (case spec_bucket (status r) of
        None \<Rightarrow> s
      | Some b \<Rightarrow> count_error b (s \<lparr> dataErrors := (dataErrors s)(b := push_capped (dataErrors s b) (response_sample url r)) \<rparr>))"
  by (cases "status r = 0 \<or> status r \<ge> 400")
     (simp_all add: classify_def bucket_of_spec Let_def response_sample_def)

lemma count_error_fields [simp]:
  "statusCounts (count_error b s) = statusCounts s"
  "statusOrder (count_error b s) = statusOrder s"
  "statusTrend (count_error b s) = statusTrend s"
  "dataErrors (count_error b s) = dataErrors s"
  "checks (count_error b s) = checks s"
  "console_log (count_error b s) = console_log s"
  "slept (count_error b s) = slept s"
  "error_counter b' (count_error b s) = error_counter b' s + (if b' = b then 1 else 0)"
  by (cases b; cases b'; simp add: count_error_def error_counter_def)+

lemma error_counter_updates [simp]:
  "error_counter b (s \<lparr> dataErrors := d \<rparr>) = error_counter b s"
  "error_counter b (s \<lparr> checks := c \<rparr>) = error_counter b s"
  "error_counter b (s \<lparr> statusTrend := t \<rparr>) = error_counter b s"
  "error_counter b (s \<lparr> statusCounts := sc \<rparr>) = error_counter b s"
  "error_counter b (s \<lparr> statusOrder := so \<rparr>) = error_counter b s"
  "error_counter b (s \<lparr> console_log := l \<rparr>) = error_counter b s"
  "error_counter b (s \<lparr> slept := n \<rparr>) = error_counter b s"
  "error_counter b (s \<lparr> serverErrorCounter := k \<rparr>) = (if b = server then k else error_counter b s)"
  by (cases b; simp add: error_counter_def)+

lemma classify_fields [simp]:
  "statusCounts (classify url r s) = statusCounts s"
  "statusOrder (classify url r s) = statusOrder s"
  "statusTrend (classify url r s) = statusTrend s"
  "checks (classify url r s) = checks s"
  "console_log (classify url r s) = console_log s"
  "slept (classify url r s) = slept s"
  by (simp_all add: classify_spec split: option.split)

lemma runScenario_responded:
  "url \<noteq> [] \<Longrightarrow>
   runScenario (Some url) (Inr r) s =
     Inr ((classify url r
            (s \<lparr> checks := checks s @ [(''status is < 400'', status r \<noteq> 0 \<and> status r < 400)],
                statusTrend := statusTrend s @ [status r],
                statusCounts := AList.update (status r) (nullish (map_of (statusCounts s) (status r)) 0 + 1) (statusCounts s),
                statusOrder := (if status r \<notin> set (statusOrder s) then statusOrder s @ [status r] else statusOrder s) \<rparr>))
          \<lparr> slept := slept s + 1 \<rparr>)"
  by (cases "status r \<in> set (statusOrder s)") (simp_all add: runScenario_def Let_def)

lemma classify_counter:
  "error_counter b (classify url r s) = error_counter b s + (if spec_bucket (status r) = Some b then 1 else 0)"
  by (simp add: classify_spec split: option.split)

lemma classify_dataErrors:
  "dataErrors (classify url r s) b =
     (if spec_bucket (status r) = Some b then push_capped (dataErrors s b) (response_sample url r)
      else dataErrors s b)"
  by (auto simp add: classify_spec split: option.split)

lemma runScenario_returns: "\<exists>s'. runScenario target x s = Inr s'"
  by (cases target; cases x) (simp_all add: runScenario_def Let_def)

lemma iterations_returns: "\<exists>s'. iterations target xs s = Inr s'"
proof (induction xs arbitrary: s)
  case Nil
  show ?case by simp
next
  case (Cons x xs)
  obtain s1 where "runScenario target x s = Inr s1"
    using runScenario_returns by blast
  with Cons show ?case by simp
qed

lemma step_status_total:
  assumes "url \<noteq> []" and "runScenario (Some url) x s = Inr s'"
  shows "status_total s' + (if isl x then 1 else 0) = status_total s + 1"
proof (cases x)
  case (Inl err)
  with assms show ?thesis
    by (auto simp add: runScenario_raised status_total_def)
next
  case (Inr r)
  with assms show ?thesis
    by (auto simp add: runScenario_responded status_total_def sum_update_increment)
qed

lemma iterations_status_total:
  assumes "url \<noteq> []"
  shows "iterations (Some url) xs s = Inr s'
    \<Longrightarrow> status_total s' + transport_failures xs = status_total s + length xs"
proof (induction xs arbitrary: s)
  case Nil
  then show ?case by (simp add: transport_failures_def)
next
  case (Cons x xs)
  obtain s1 where s1: "runScenario (Some url) x s = Inr s1"
    using runScenario_returns by blast
  with Cons.prems have rest: "iterations (Some url) xs s1 = Inr s'" by simp
  have "status_total s' + transport_failures xs = status_total s1 + length xs"
    by (rule Cons.IH [OF rest])
  moreover have "status_total s1 + (if isl x then 1 else 0) = status_total s + 1"
    by (rule step_status_total [OF assms s1])
  ultimately show ?case by (cases "isl x") (simp_all add: transport_failures_def)
qed

lemma iterations_skip:
  assumes "target = None \<or> target = Some []"
  shows "iterations target xs s = Inr s' \<Longrightarrow> statusCounts s' = statusCounts s"
proof (induction xs arbitrary: s)
  case Nil
  then show ?case by simp
next
  case (Cons x xs)
  then show ?case by (simp add: runScenario_skip [OF assms])
qed

lemma push_capped_take:
  "length ex \<le> 3 \<Longrightarrow> push_capped ex x = take 3 (ex @ [x])"
  by (simp add: push_capped_def)

lemma take_take_append:
  "take n (take n xs @ ys) = take n (xs @ ys)"
  by (cases "n \<le> length xs") (simp_all add: min_def)

lemma samples_for_Cons:
  "samples_for b url (x # xs) =
     (case sample_of url x of
        None \<Rightarrow> samples_for b url xs
      | Some p \<Rightarrow> (if fst p = b then snd p # samples_for b url xs else samples_for b url xs))"
  by (simp add: samples_for_def map_filter_simps split: option.split)

lemma step_sample:
  assumes "url \<noteq> []" and "runScenario (Some url) x s = Inr s'"
  shows "dataErrors s' b =
           (case sample_of url x of
              None \<Rightarrow> dataErrors s b
            | Some p \<Rightarrow> (if fst p = b then push_capped (dataErrors s b) (snd p) else dataErrors s b))"
    and "error_counter b s' =
           (case sample_of url x of
              None \<Rightarrow> error_counter b s
            | Some p \<Rightarrow> (if fst p = b then error_counter b s + 1 else error_counter b s))"
proof -
  show "dataErrors s' b =
           (case sample_of url x of
              None \<Rightarrow> dataErrors s b
            | Some p \<Rightarrow> (if fst p = b then push_capped (dataErrors s b) (snd p) else dataErrors s b))"
  proof (cases x)
    case (Inl err)
    with assms show ?thesis by (auto simp add: runScenario_raised)
  next
    case (Inr r)
    with assms show ?thesis
      by (auto simp add: runScenario_responded classify_dataErrors split: option.split)
  qed
  show "error_counter b s' =
           (case sample_of url x of
              None \<Rightarrow> error_counter b s
            | Some p \<Rightarrow> (if fst p = b then error_counter b s + 1 else error_counter b s))"
  proof (cases x)
    case (Inl err)
    with assms show ?thesis
      by (cases b) (auto simp add: runScenario_raised error_counter_def)
  next
    case (Inr r)
    with assms show ?thesis
      by (auto simp add: runScenario_responded classify_counter split: option.split)
  qed
qed

lemma iterations_samples:
  assumes "url \<noteq> []"
  shows "iterations (Some url) xs s = Inr s' \<Longrightarrow> length (dataErrors s b) \<le> 3 \<Longrightarrow>
         dataErrors s' b = take 3 (dataErrors s b @ samples_for b url xs)
         \<and> error_counter b s' = error_counter b s + length (samples_for b url xs)"
proof (induction xs arbitrary: s)
  case Nil
  then show ?case by (simp add: samples_for_def map_filter_simps)
next
  case (Cons x xs)
  obtain s1 where s1: "runScenario (Some url) x s = Inr s1"
    using runScenario_returns by blast
  with Cons.prems have rest: "iterations (Some url) xs s1 = Inr s'" by simp
  note st = step_sample [OF assms s1, of b]
  have len: "length (dataErrors s1 b) \<le> 3"
    using st(1) Cons.prems(2) by (auto simp add: push_capped_def split: option.split)
  note ih = Cons.IH [OF rest len]
  show ?case
  proof (cases "sample_of url x")
    case None
    with st ih show ?thesis by (simp add: samples_for_Cons)
  next
    case (Some p)
    show ?thesis
    proof (cases "fst p = b")
      case True
      with Some st have d: "dataErrors s1 b = take 3 (dataErrors s b @ [snd p])"
        and c: "error_counter b s1 = error_counter b s + 1"
        using Cons.prems(2) by (simp_all add: push_capped_take)
      have "take 3 (dataErrors s1 b @ samples_for b url xs)
              = take 3 ((dataErrors s b @ [snd p]) @ samples_for b url xs)"
        unfolding d by (rule take_take_append)
      with ih c Some True show ?thesis by (simp add: samples_for_Cons)
    next
      case False
      with Some st ih show ?thesis by (simp add: samples_for_Cons)
    qed
  qed
qed

lemma samples_for_403:
  "\<forall>r \<in> set rs. status r = 403 \<Longrightarrow>
   samples_for auth url (map Inr rs) = map (response_sample url) rs"
  by (induction rs) (simp_all add: samples_for_Cons spec_bucket_def, simp add: samples_for_def map_filter_simps)

lemma iterations_skip_dataErrors:
  assumes "target = None \<or> target = Some []"
  shows "iterations target xs s = Inr s' \<Longrightarrow> dataErrors s' = dataErrors s"
proof (induction xs arbitrary: s)
  case Nil
  then show ?case by simp
next
  case (Cons x xs)
  then show ?case by (simp add: runScenario_skip [OF assms])
qed

lemma iterations_capped:
  assumes "iterations target xs initial_state = Inr s'"
  shows "length (dataErrors s' b) \<le> 3"
proof (cases "target = None \<or> target = Some []")
  case True
  from iterations_skip_dataErrors [OF True assms] show ?thesis
    by (simp add: initial_state_def)
next
  case False
  then obtain url where t: "target = Some url" and u: "url \<noteq> []" by auto
  have "length (dataErrors initial_state b) \<le> 3" by (simp add: initial_state_def)
  from iterations_samples [OF u assms [unfolded t] this] show ?thesis by simp
qed

lemma string_of_int_403: "string_of_int 403 = ''403''"
  by code_simp

text \<open>
  Claim C1, as amended. When the target URL is set (not absent and not empty), for every
  sequence of N iterations from the initial state the sum of the values of
  \<open>statusCounts\<close> plus the number of iterations whose transport call raised equals N:
  an iteration with a response adds exactly 1 to the entry of its status (an absent entry
  counting as 0), an iteration whose transport call raised leaves \<open>statusCounts\<close> as it
  is. When the target URL is not set, every iteration is skipped and \<open>statusCounts\<close>
  stays empty.
\<close>

theorem status_counts_account:
  assumes "url \<noteq> []"
  shows "(\<exists>s'. iterations (Some url) xs initial_state = Inr s'
            \<and> status_total s' + transport_failures xs = length xs)
         \<and> (\<forall>s r. \<exists>s'. runScenario (Some url) (Inr r) s = Inr s'
                \<and> map_of (statusCounts s') =
                    (map_of (statusCounts s))
                      (status r \<mapsto> (case map_of (statusCounts s) (status r) of None \<Rightarrow> 0 | Some n \<Rightarrow> n) + 1)
                \<and> status_total s' = status_total s + 1)
         \<and> (\<forall>s err. \<exists>s'. runScenario (Some url) (Inl err) s = Inr s' \<and> statusCounts s' = statusCounts s)
         \<and> (\<forall>target s'. (target = None \<or> target = Some []) \<and> iterations target xs initial_state = Inr s'
                \<longrightarrow> statusCounts s' = [] \<and> status_total s' = 0)"
proof -
  obtain s' where s': "iterations (Some url) xs initial_state = Inr s'"
    using iterations_returns by blast
  have "status_total s' + transport_failures xs = status_total initial_state + length xs"
    by (rule iterations_status_total [OF assms s'])
  then have a: "\<exists>s'. iterations (Some url) xs initial_state = Inr s'
            \<and> status_total s' + transport_failures xs = length xs"
    using s' by (simp add: status_total_def initial_state_def)
  have b: "\<forall>s r. \<exists>s'. runScenario (Some url) (Inr r) s = Inr s'
                \<and> map_of (statusCounts s') =
                    (map_of (statusCounts s))
                      (status r \<mapsto> (case map_of (statusCounts s) (status r) of None \<Rightarrow> 0 | Some n \<Rightarrow> n) + 1)
                \<and> status_total s' = status_total s + 1"
    using assms
    by (simp add: runScenario_responded update_conv' nullish_def status_total_def
        sum_update_increment [unfolded nullish_def])
  have c: "\<forall>s err. \<exists>s'. runScenario (Some url) (Inl err) s = Inr s' \<and> statusCounts s' = statusCounts s"
    using assms by (simp add: runScenario_raised)
  have d: "\<forall>target s'. (target = None \<or> target = Some []) \<and> iterations target xs initial_state = Inr s'
                \<longrightarrow> statusCounts s' = [] \<and> status_total s' = 0"
  proof (intro allI impI, elim conjE)
    fix target s'
    assume t: "target = None \<or> target = Some []"
      and i: "iterations target xs initial_state = Inr s'"
    have "statusCounts s' = statusCounts initial_state"
      by (rule iterations_skip [OF t i])
    then show "statusCounts s' = [] \<and> status_total s' = 0"
      by (simp add: status_total_def initial_state_def)
  qed
  show ?thesis using a b c d by blast
qed

theorem status_counts_account_witness:
  "transport_failures
     [Inr \<lparr> status = 200, error = [] \<rparr>, Inl (Thrown (Some ''timeout'')), Inr \<lparr> status = 404, error = [] \<rparr>] = 1
   \<and> (\<exists>s'. iterations (Some ''http://t'')
         [Inr \<lparr> status = 200, error = [] \<rparr>, Inl (Thrown (Some ''timeout'')), Inr \<lparr> status = 404, error = [] \<rparr>]
         initial_state = Inr s'
       \<and> status_total s' + 1 = 3)"
proof -
  have u: "''http://t'' \<noteq> []" by simp
  have f: "transport_failures
     [Inr \<lparr> status = 200, error = [] \<rparr>, Inl (Thrown (Some ''timeout'')), Inr \<lparr> status = 404, error = [] \<rparr>] = 1"
    by (simp add: transport_failures_def)
  show ?thesis
    using status_counts_account [OF u,
        of "[Inr \<lparr> status = 200, error = [] \<rparr>, Inl (Thrown (Some ''timeout'')), Inr \<lparr> status = 404, error = [] \<rparr>]"]
      f
    by auto
qed

text \<open>
  The claim as stated fails when no target URL is set: one iteration runs, no status is
  counted and no transport call is made, so the sum is 0 and not 1.
\<close>

theorem status_counts_no_target_counterexample:
  "targetUrl empty_env = None
   \<and> iterations None [Inr \<lparr> status = 200, error = [] \<rparr>] initial_state
     = Inr (initial_state \<lparr> console_log := [''Skipping load test: TARGET_URL/API_BASE_URL is not set.''],
                             slept := 1 \<rparr>)
   \<and> status_total (initial_state \<lparr> console_log := [''Skipping load test: TARGET_URL/API_BASE_URL is not set.''],
                                    slept := 1 \<rparr>)
       + transport_failures [Inr \<lparr> status = 200, error = [] \<rparr>]
     \<noteq> length [Inr \<lparr> status = 200, error = [] \<rparr> :: transport_result]"
  by (simp add: targetUrl_def empty_env_def runScenario_def initial_state_def status_total_def
      transport_failures_def)

text \<open>
  Claim C2. For every response, the iteration follows the precedence of the
  specification: status 401 or 403 is auth; otherwise status 500 and above, or 0, is
  server; otherwise status 400 to 499 is client. The counter of the matching bucket, and
  no other, grows by 1, and the sample is offered to that bucket only; a response with
  \<open>0 < status < 400\<close> has no bucket and changes no counter. A transport failure grows the
  server counter by 1 and no other. (A response exists when the target URL is set.)
\<close>

theorem classification_precedence:
  assumes "url \<noteq> []"
  shows "(\<exists>s'. runScenario (Some url) (Inr r) s = Inr s'
            \<and> (\<forall>b. error_counter b s' = error_counter b s + (if spec_bucket (status r) = Some b then 1 else 0))
            \<and> (\<forall>b. dataErrors s' b =
                     (if spec_bucket (status r) = Some b
                      then push_capped (dataErrors s b) (response_sample url r)
                      else dataErrors s b)))
         \<and> (status r = 0 \<or> status r \<ge> 400 \<longrightarrow> (\<exists>b. spec_bucket (status r) = Some b))
         \<and> (0 < status r \<and> status r < 400 \<longrightarrow> spec_bucket (status r) = None)
         \<and> (\<exists>s'. runScenario (Some url) (Inl err) s = Inr s'
              \<and> (\<forall>b. error_counter b s' = error_counter b s + (if b = server then 1 else 0)))"
proof -
  have a: "\<exists>s'. runScenario (Some url) (Inr r) s = Inr s'
            \<and> (\<forall>b. error_counter b s' = error_counter b s + (if spec_bucket (status r) = Some b then 1 else 0))
            \<and> (\<forall>b. dataErrors s' b =
                     (if spec_bucket (status r) = Some b
                      then push_capped (dataErrors s b) (response_sample url r)
                      else dataErrors s b))"
    using assms
    by (simp add: runScenario_responded classify_counter classify_dataErrors)
  have b: "status r = 0 \<or> status r \<ge> 400 \<longrightarrow> (\<exists>b. spec_bucket (status r) = Some b)"
    by (simp add: spec_bucket_def)
  have c: "0 < status r \<and> status r < 400 \<longrightarrow> spec_bucket (status r) = None"
    by (simp add: spec_bucket_def)
  have d: "\<exists>s'. runScenario (Some url) (Inl err) s = Inr s'
              \<and> (\<forall>b. error_counter b s' = error_counter b s + (if b = server then 1 else 0))"
    using assms by (simp add: runScenario_raised) (simp add: error_counter_def)
  show ?thesis using a b c d by blast
qed

theorem classification_precedence_witness:
  "(\<exists>s'. runScenario (Some ''http://t'') (Inr \<lparr> status = 403, error = [] \<rparr>) initial_state = Inr s'
      \<and> authErrorCounter s' = 1 \<and> clientErrorCounter s' = 0 \<and> serverErrorCounter s' = 0)
   \<and> (\<exists>s'. runScenario (Some ''http://t'') (Inr \<lparr> status = 200, error = [] \<rparr>) initial_state = Inr s'
      \<and> authErrorCounter s' = 0 \<and> clientErrorCounter s' = 0 \<and> serverErrorCounter s' = 0)"
proof -
  have u: "''http://t'' \<noteq> []" by simp
  have sb: "spec_bucket (status \<lparr> status = 403, error = [] \<rparr>) = Some auth"
    "spec_bucket (status \<lparr> status = 200, error = [] \<rparr>) = None"
    by (simp_all add: spec_bucket_def)
  have i: "error_counter auth initial_state = 0" "error_counter client initial_state = 0"
    "error_counter server initial_state = 0"
    by (simp_all add: error_counter_def initial_state_def)
  obtain s1 where r1: "runScenario (Some ''http://t'') (Inr \<lparr> status = 403, error = [] \<rparr>) initial_state = Inr s1"
    and c1: "\<forall>b. error_counter b s1 = error_counter b initial_state
               + (if spec_bucket (status \<lparr> status = 403, error = [] \<rparr>) = Some b then 1 else 0)"
    using classification_precedence [OF u, of "\<lparr> status = 403, error = [] \<rparr>" initial_state]
    by blast
  obtain s2 where r2: "runScenario (Some ''http://t'') (Inr \<lparr> status = 200, error = [] \<rparr>) initial_state = Inr s2"
    and c2: "\<forall>b. error_counter b s2 = error_counter b initial_state
               + (if spec_bucket (status \<lparr> status = 200, error = [] \<rparr>) = Some b then 1 else 0)"
    using classification_precedence [OF u, of "\<lparr> status = 200, error = [] \<rparr>" initial_state]
    by blast
  have "error_counter auth s1 = 1" "error_counter client s1 = 0" "error_counter server s1 = 0"
    "error_counter auth s2 = 0" "error_counter client s2 = 0" "error_counter server s2 = 0"
    using c1 c2 unfolding sb by (simp_all add: i)
  then have "authErrorCounter s1 = 1 \<and> clientErrorCounter s1 = 0 \<and> serverErrorCounter s1 = 0"
    "authErrorCounter s2 = 0 \<and> clientErrorCounter s2 = 0 \<and> serverErrorCounter s2 = 0"
    by (simp_all add: error_counter_def)
  with r1 r2 show ?thesis by blast
qed

text \<open>
  Claim C3. When the transport call raises, the iteration returns normally; the server
  counter grows by exactly 1; one sample with status 0, the message of the failure (or
  \<open>request threw\<close> when the failure carries none) and the target as url is appended to
  the server bucket if that bucket holds fewer than 3 samples; \<open>statusCounts\<close>,
  \<open>statusOrder\<close>, the trend, the checks, the other buckets and the other counters are
  unchanged; and the iteration sleeps one second.
\<close>

theorem transport_failure_recorded:
  assumes "url \<noteq> []"
  shows "\<exists>s'. runScenario (Some url) (Inl err) s = Inr s'
           \<and> serverErrorCounter s' = serverErrorCounter s + 1
           \<and> dataErrors s' server =
               (if length (dataErrors s server) < 3
                then dataErrors s server
                     @ [\<lparr> sample_status = 0,
                          sample_message = (case thrown_message err of None \<Rightarrow> ''request threw'' | Some m \<Rightarrow> m),
                          sample_url = url \<rparr>]
                else dataErrors s server)
           \<and> dataErrors s' auth = dataErrors s auth
           \<and> dataErrors s' client = dataErrors s client
           \<and> statusCounts s' = statusCounts s
           \<and> statusOrder s' = statusOrder s
           \<and> statusTrend s' = statusTrend s
           \<and> checks s' = checks s
           \<and> authErrorCounter s' = authErrorCounter s
           \<and> clientErrorCounter s' = clientErrorCounter s
           \<and> slept s' = slept s + 1"
  using assms by (simp add: runScenario_raised push_capped_def failure_sample_def)

theorem transport_failure_recorded_witness:
  "\<exists>s'. runScenario (Some ''http://t'') (Inl (Thrown (Some ''dial: i/o timeout''))) initial_state = Inr s'
     \<and> serverErrorCounter s' = 1
     \<and> dataErrors s' server
         = [\<lparr> sample_status = 0, sample_message = ''dial: i/o timeout'', sample_url = ''http://t'' \<rparr>]
     \<and> statusCounts s' = []
     \<and> statusOrder s' = []
     \<and> slept s' = 1"
proof -
  have u: "''http://t'' \<noteq> []" by simp
  show ?thesis
    using transport_failure_recorded [OF u, of "Thrown (Some ''dial: i/o timeout'')" initial_state]
    by (auto simp add: initial_state_def)
qed

text \<open>
  Claim C4. After any sequence of iterations from the initial state, every bucket holds
  at most 3 samples; with the target set, a bucket holds the first 3 samples offered to
  it, in order of arrival, while its counter counts all of them. In particular a
  response with status 403 grows the auth counter by 1 and appends one sample with
  status 403 when the auth bucket holds fewer than 3; after any number of responses with
  status 403 the auth counter is that number and the auth bucket holds the first 3.
\<close>

theorem error_samples_capped:
  assumes "url \<noteq> []"
  shows "(\<forall>target s'. iterations target xs initial_state = Inr s' \<longrightarrow> (\<forall>b. length (dataErrors s' b) \<le> 3))
         \<and> (\<exists>s'. iterations (Some url) xs initial_state = Inr s'
              \<and> (\<forall>b. dataErrors s' b = take 3 (samples_for b url xs)
                     \<and> error_counter b s' = length (samples_for b url xs)))
         \<and> (status r = 403 \<longrightarrow>
               (\<exists>s'. runScenario (Some url) (Inr r) s = Inr s'
                  \<and> authErrorCounter s' = authErrorCounter s + 1
                  \<and> dataErrors s' auth =
                      (if length (dataErrors s auth) < 3
                       then dataErrors s auth
                            @ [\<lparr> sample_status = 403,
                                 sample_message = (if error r = [] then ''HTTP 403'' else error r),
                                 sample_url = url \<rparr>]
                       else dataErrors s auth)))
         \<and> ((\<forall>q \<in> set rs. status q = 403) \<longrightarrow>
               (\<exists>s'. iterations (Some url) (map Inr rs) initial_state = Inr s'
                  \<and> authErrorCounter s' = length rs
                  \<and> dataErrors s' auth = take 3 (map (response_sample url) rs)
                  \<and> length (dataErrors s' auth) = min 3 (length rs)))"
proof -
  have init: "\<And>b. length (dataErrors initial_state b) \<le> 3" "\<And>b. dataErrors initial_state b = []"
    "\<And>b. error_counter b initial_state = 0"
    by (simp_all add: initial_state_def error_counter_def split: bucket.split)
  have a: "\<forall>target s'. iterations target xs initial_state = Inr s' \<longrightarrow> (\<forall>b. length (dataErrors s' b) \<le> 3)"
    using iterations_capped by blast
  obtain s1 where s1: "iterations (Some url) xs initial_state = Inr s1"
    using iterations_returns by blast
  have b: "\<exists>s'. iterations (Some url) xs initial_state = Inr s'
              \<and> (\<forall>b. dataErrors s' b = take 3 (samples_for b url xs)
                     \<and> error_counter b s' = length (samples_for b url xs))"
    using s1 iterations_samples [OF assms s1 init(1)] by (simp add: init)
  have c: "status r = 403 \<longrightarrow>
               (\<exists>s'. runScenario (Some url) (Inr r) s = Inr s'
                  \<and> authErrorCounter s' = authErrorCounter s + 1
                  \<and> dataErrors s' auth =
                      (if length (dataErrors s auth) < 3
                       then dataErrors s auth
                            @ [\<lparr> sample_status = 403,
                                 sample_message = (if error r = [] then ''HTTP 403'' else error r),
                                 sample_url = url \<rparr>]
                       else dataErrors s auth))"
  proof
    assume st: "status r = 403"
    have sb: "spec_bucket (status r) = Some auth" by (simp add: st spec_bucket_def)
    have "error_counter auth (classify url r s0) = error_counter auth s0 + 1" for s0
      by (simp add: classify_counter sb)
    then have cnt: "authErrorCounter (classify url r s0) = authErrorCounter s0 + 1" for s0
      by (simp add: error_counter_def)
    show "\<exists>s'. runScenario (Some url) (Inr r) s = Inr s'
                  \<and> authErrorCounter s' = authErrorCounter s + 1
                  \<and> dataErrors s' auth =
                      (if length (dataErrors s auth) < 3
                       then dataErrors s auth
                            @ [\<lparr> sample_status = 403,
                                 sample_message = (if error r = [] then ''HTTP 403'' else error r),
                                 sample_url = url \<rparr>]
                       else dataErrors s auth)"
      using assms
      by (simp add: runScenario_responded cnt classify_dataErrors sb [unfolded st] push_capped_def
          response_sample_def st string_of_int_403)
  qed
  have d: "(\<forall>q \<in> set rs. status q = 403) \<longrightarrow>
               (\<exists>s'. iterations (Some url) (map Inr rs) initial_state = Inr s'
                  \<and> authErrorCounter s' = length rs
                  \<and> dataErrors s' auth = take 3 (map (response_sample url) rs)
                  \<and> length (dataErrors s' auth) = min 3 (length rs))"
  proof
    assume all: "\<forall>q \<in> set rs. status q = 403"
    obtain s2 where s2: "iterations (Some url) (map Inr rs) initial_state = Inr s2"
      using iterations_returns by blast
    from iterations_samples [OF assms s2 init(1), of auth]
    have "dataErrors s2 auth = take 3 (map (response_sample url) rs)"
      and "error_counter auth s2 = length rs"
      by (simp_all add: init samples_for_403 [OF all])
    then show "\<exists>s'. iterations (Some url) (map Inr rs) initial_state = Inr s'
                  \<and> authErrorCounter s' = length rs
                  \<and> dataErrors s' auth = take 3 (map (response_sample url) rs)
                  \<and> length (dataErrors s' auth) = min 3 (length rs)"
      using s2 by (simp add: error_counter_def min.commute)
  qed
  show ?thesis using a b c d by blast
qed

theorem error_samples_capped_witness:
  "\<exists>s'. iterations (Some ''http://t'')
           (map Inr (replicate 5 \<lparr> status = 403, error = [] \<rparr>)) initial_state = Inr s'
     \<and> authErrorCounter s' = 5
     \<and> dataErrors s' auth
         = replicate 3 \<lparr> sample_status = 403, sample_message = ''HTTP 403'', sample_url = ''http://t'' \<rparr>"
proof -
  have u: "''http://t'' \<noteq> []" by simp
  have h: "\<forall>q \<in> set (replicate 5 \<lparr> status = 403, error = [] \<rparr>). status q = 403" by simp
  have t: "take 3 (map (response_sample ''http://t'') (replicate 5 \<lparr> status = 403, error = [] \<rparr>))
             = replicate 3 \<lparr> sample_status = 403, sample_message = ''HTTP 403'', sample_url = ''http://t'' \<rparr>"
    by (simp add: response_sample_def string_of_int_403)
  show ?thesis
    using error_samples_capped [OF u, of "[]" "\<lparr> status = 403, error = [] \<rparr>" initial_state
        "replicate 5 \<lparr> status = 403, error = [] \<rparr>"] h t
    by auto
qed


section \<open>The summary\<close>



lemma join_append:
  "xs \<noteq> [] \<Longrightarrow> ys \<noteq> [] \<Longrightarrow> join sep (xs @ ys) = join sep xs @ sep @ join sep ys"
proof (induction sep xs rule: join.induct)
  case (1 sep)
  then show ?case by simp
next
  case (2 sep x)
  then show ?case by (cases ys) simp_all
next
  case (3 sep x y zs)
  then show ?case by simp
qed

lemma sections_split:
  "sections rt st d =
     ([''=== k6 Summary ==='',
       ''Scenario: ''
         @ (case testRunDurationMs d of
              None \<Rightarrow> ''n/a''
            | Some ms \<Rightarrow>
                if ms = NaN \<or> ms = Fin 0 then ''n/a''
                else toFixed rt (divided rt ms (Fin 1000)) 1 @ ''s''),
       []]
      @ errorsSection rt st d @ [[]] @ latencySection rt d @ [[]])
     @ [''Checks'',
        ''- status < 500: passes='' @ fmtCount rt (checks_passes d) @ '' fails='' @ fmtCount rt (checks_fails d)]
     @ ([[]] @ throughputSection rt d @ [[]] @ vusSection rt d @ [[]] @ statusSection rt st d)"
  by (simp add: sections_def)

text \<open>
  With enforcement disabled the reporter warns about a failed rate above 0.05 and a p95
  above 2200 ms, read from \<open>data.metrics.http_req_failed.rate\<close> and
  \<open>data.metrics.http_req_duration['p(95)']\<close>; with enforcement enabled it does not.
\<close>

lemma handleSummary_advisory:
  "fst (handleSummary rt True st d) = []"
  "http_req_failed_rate d = Some x \<Longrightarrow> js_gt x lit_0_05 \<Longrightarrow>
     (''http_req_failed threshold exceeded (rate='' @ ToString rt x @ ''). Result will still be saved.'')
       \<in> set (fst (handleSummary rt False st d))"
  "http_req_duration_p95 d = Some y \<Longrightarrow> js_gt y (Fin 2200) \<Longrightarrow>
     (''http_req_duration threshold exceeded (p95='' @ ToString rt y @ ''ms). Result will still be saved.'')
       \<in> set (fst (handleSummary rt False st d))"
  by (simp_all add: handleSummary_def)




text \<open>
  Claim C10. The check recorded by an iteration is named \<open>status is < 400\<close> and passes
  exactly when the status is nonzero and below 400; the summary, for every input, has
  the line \<open>- status < 500: passes=\<dots> fails=\<dots>\<close> right after the line \<open>Checks\<close>; and the
  label does not state the predicate applied: for status 0 and for every status from
  400 to 499 the recorded check fails although the status is below 500.
\<close>

theorem checks_label_mismatch:
  assumes "url \<noteq> []"
  shows "(\<exists>s'. runScenario (Some url) (Inr r) s = Inr s'
            \<and> checks s' = checks s @ [(''status is < 400'', status r \<noteq> 0 \<and> status r < 400)])
         \<and> sublist [''Checks'',
                     ''- status < 500: passes='' @ fmtCount rt (checks_passes d)
                       @ '' fails='' @ fmtCount rt (checks_fails d)]
                    (sections rt st d)
         \<and> sublist (''Checks'' @ [CHR 0x0A] @ ''- status < 500: passes='' @ fmtCount rt (checks_passes d)
                       @ '' fails='' @ fmtCount rt (checks_fails d) @ [CHR 0x0A])
                    (snd (handleSummary rt enforce st d))
         \<and> (status r = 0 \<or> (400 \<le> status r \<and> status r < 500)
              \<longrightarrow> \<not> (status r \<noteq> 0 \<and> status r < 400) \<and> status r < 500)"
proof -
  define line where "line = ''- status < 500: passes='' @ fmtCount rt (checks_passes d)
                 @ '' fails='' @ fmtCount rt (checks_fails d)"
  define A where "A = [''=== k6 Summary ==='',
       ''Scenario: ''
         @ (case testRunDurationMs d of
              None \<Rightarrow> ''n/a''
            | Some ms \<Rightarrow>
                if ms = NaN \<or> ms = Fin 0 then ''n/a''
                else toFixed rt (divided rt ms (Fin 1000)) 1 @ ''s''),
       []]
      @ errorsSection rt st d @ [[]] @ latencySection rt d @ [[]]"
  define B where "B = [[]] @ throughputSection rt d @ [[]] @ vusSection rt d @ [[]] @ statusSection rt st d"
  have sp: "sections rt st d = A @ [''Checks'', line] @ B"
    unfolding A_def B_def line_def by (rule sections_split)
  have ne: "A \<noteq> []" "B \<noteq> []" "[''Checks'', line] @ B \<noteq> []" "[''Checks'', line] \<noteq> []"
    by (simp_all add: A_def B_def)
  have a: "\<exists>s'. runScenario (Some url) (Inr r) s = Inr s'
            \<and> checks s' = checks s @ [(''status is < 400'', status r \<noteq> 0 \<and> status r < 400)]"
    using assms
    by (cases "status r \<in> set (statusOrder s)")
       (simp_all add: runScenario_def Let_def classify_def count_error_def)
  have b: "sublist [''Checks'', line] (sections rt st d)"
    unfolding sp by (rule sublist_appendI)
  have j1: "join [CHR 0x0A] (sections rt st d)
          = join [CHR 0x0A] A @ [CHR 0x0A] @ join [CHR 0x0A] ([''Checks'', line] @ B)"
    unfolding sp by (rule join_append [OF ne(1) ne(3)])
  have j2: "join [CHR 0x0A] ([''Checks'', line] @ B)
          = join [CHR 0x0A] [''Checks'', line] @ [CHR 0x0A] @ join [CHR 0x0A] B"
    by (rule join_append [OF ne(4) ne(2)])
  have j3: "join [CHR 0x0A] [''Checks'', line] = ''Checks'' @ [CHR 0x0A] @ line"
    by simp
  have "snd (handleSummary rt enforce st d) = join [CHR 0x0A] (sections rt st d)"
    by (simp add: handleSummary_def)
  also have "\<dots> = (join [CHR 0x0A] A @ [CHR 0x0A])
            @ (''Checks'' @ [CHR 0x0A] @ line @ [CHR 0x0A])
            @ join [CHR 0x0A] B"
    unfolding j1 j2 j3 by (simp only: append_assoc)
  finally have c: "sublist (''Checks'' @ [CHR 0x0A] @ line @ [CHR 0x0A]) (snd (handleSummary rt enforce st d))"
    by (simp only: sublist_appendI)
  have e: "status r = 0 \<or> (400 \<le> status r \<and> status r < 500)
              \<longrightarrow> \<not> (status r \<noteq> 0 \<and> status r < 400) \<and> status r < 500"
    by auto
  have l: "line @ [CHR 0x0A] = ''- status < 500: passes='' @ fmtCount rt (checks_passes d)
                       @ '' fails='' @ fmtCount rt (checks_fails d) @ [CHR 0x0A]"
    by (simp add: line_def)
  show ?thesis
    using a b c e unfolding l unfolding line_def by blast
qed

theorem checks_label_mismatch_witness:
  "(\<exists>s'. runScenario (Some ''http://t'') (Inr \<lparr> status = 404, error = [] \<rparr>) initial_state = Inr s'
      \<and> checks s' = [(''status is < 400'', False)])
   \<and> sublist [''Checks'', ''- status < 500: passes=n/a fails=n/a'']
        (sections plain_runtime initial_state empty_data)"
proof -
  have u: "''http://t'' \<noteq> []" by simp
  have f: "fmtCount plain_runtime (checks_passes empty_data) = ''n/a''"
    "fmtCount plain_runtime (checks_fails empty_data) = ''n/a''"
    by (simp_all add: fmtCount_def empty_data_def)
  have c: "checks initial_state = []"
    by (simp add: initial_state_def)
  show ?thesis
    using checks_label_mismatch [OF u, of "\<lparr> status = 404, error = [] \<rparr>" initial_state
        plain_runtime empty_data initial_state False]
    by (simp add: f c)
qed

end
